theory Spec2Isabelle
  imports Main
begin

section \<open>The state of the App component (src/src/App.tsx)\<close>

text \<open>
  The component keeps five \<open>useState\<close> cells and two refs.  Besides them the model
  records what the handlers do to the world outside React: the tracks of the media
  streams (one store shared by every alias of a stream), the \<open>dark\<close> class of the root
  element, the pending \<open>setTimeout\<close> callbacks, the console, the clipboard, and the
  calls of \<open>getUserMedia\<close>.

  Every handler is a function from the state at the moment it runs to the state it
  leaves.  What a handler reads from the platform (the clock, the result of an awaited
  promise) or from the render that created it (a captured value of a state cell) is a
  parameter.
\<close>

text \<open>One element of \<open>conversions\<close>: \<open>{ id: number; text: string; timestamp: string }\<close>.\<close>

record conversion =
  id_c :: int
  text_c :: string
  timestamp_c :: string

text \<open>A media track: \<open>stop()\<close> ends it, \<open>enabled\<close> is its public flag.\<close>

record track =
  live :: bool
  enabled :: bool

text \<open>A \<open>MediaStream\<close> is a handle; \<open>getTracks()\<close> gives the addresses of its tracks.\<close>

record media_stream =
  stream_id :: nat
  getTracks :: "nat list"

text \<open>The \<open>video\<close> element behind \<open>videoRef.current\<close>.\<close>

record video_element =
  srcObject :: "media_stream option"

text \<open>The argument of \<open>getUserMedia\<close>.\<close>

record constraints =
  width_ideal :: nat
  height_ideal :: nat
  facingMode :: string
  audio :: bool

text \<open>
  A value caught by \<open>catch (err)\<close>: either an instance of \<open>Error\<close> with its
  \<open>message\<close>, or anything else.
\<close>

datatype thrown = ErrorObject string | OtherValue

text \<open>
  The three ways \<open>await navigator.mediaDevices.getUserMedia(constraints)\<close> ends.
  \<open>Unavailable message\<close>: \<open>navigator.mediaDevices\<close> is undefined, as it is on a page
  the browser does not treat as secure, so reading \<open>getUserMedia\<close> from it throws a
  \<open>TypeError\<close> with this message and no call is made.  Otherwise the call is made and
  its promise is fulfilled with a stream or rejected with a value.
\<close>

datatype acquisition = Unavailable string | Granted media_stream | Rejected thrown

datatype console_entry = ConsoleLog string | ConsoleError string thrown

text \<open>The two ways \<open>await navigator.clipboard.writeText(text)\<close> ends.\<close>

datatype clipboard_write = Written | WriteRejected thrown

record app_state =
  isStreaming :: bool
  error :: "string option"
  conversions :: "conversion list"
  copiedId :: "int option"
  isDarkMode :: bool
  videoRef :: "video_element option"
  streamRef :: "media_stream option"
  trackStore :: "nat \<Rightarrow> track"
  rootDark :: bool
  timers :: "nat list"
  console :: "console_entry list"
  clipboard :: "string option"
  requests :: "constraints list"

text \<open>What the mount effect reads from \<open>window\<close>.\<close>

record environment =
  prefersDark :: bool
  protocol :: string
  hostname :: string

text \<open>
  The state before the first effect runs: the initial values of the \<open>useState\<close> and
  \<open>useRef\<close> calls, with the \<open>video\<close> element (rendered unconditionally) already
  attached to \<open>videoRef\<close>.
\<close>

definition initial_state :: app_state where
  "initial_state =
     \<lparr> isStreaming = False, error = None, conversions = [], copiedId = None,
       isDarkMode = False, videoRef = Some \<lparr> srcObject = None \<rparr>, streamRef = None,
       trackStore = (\<lambda>_. \<lparr> live = True, enabled = True \<rparr>), rootDark = False,
       timers = [], console = [], clipboard = None, requests = [] \<rparr>"

section \<open>The mount effect and the dark-mode handler\<close>

definition secure_context :: "environment \<Rightarrow> bool" where
  "secure_context env = (\<not> (protocol env \<noteq> ''https:'' \<and> hostname env \<noteq> ''localhost''))"

text \<open>Lines 13-24: the effect run once after the first render.\<close>

definition mount_effect :: "environment \<Rightarrow> app_state \<Rightarrow> app_state" where
  "mount_effect env s =
     (let s1 = (if prefersDark env then s\<lparr> isDarkMode := True, rootDark := True \<rparr> else s)
      in if protocol env \<noteq> ''https:'' \<and> hostname env \<noteq> ''localhost''
         then s1\<lparr> error := Some ''Camera access requires HTTPS or localhost connection.'' \<rparr>
         else s1)"

text \<open>
  Lines 26-29.  \<open>rendered\<close> is the value of \<open>isDarkMode\<close> in the render that created
  the handler.  Line 27 is \<open>setIsDarkMode(!isDarkMode)\<close>: it stores the negation of that
  captured value, not of the flag as it is when the handler runs.  Line 28 toggles the
  class of the root element as it is when the handler runs.
\<close>

definition toggleDarkMode :: "bool \<Rightarrow> app_state \<Rightarrow> app_state" where
  "toggleDarkMode rendered s = s\<lparr> isDarkMode := \<not> rendered, rootDark := \<not> rootDark s \<rparr>"

section \<open>The camera session\<close>

definition camera_constraints :: constraints where
  "camera_constraints =
     \<lparr> width_ideal = 1280, height_ideal = 720, facingMode = ''user'', audio = False \<rparr>"

text \<open>
  Lines 31-56.  \<open>startCamera\<close> runs in two steps.  Up to the \<open>await\<close> it only
  evaluates \<open>navigator.mediaDevices.getUserMedia(constraints)\<close>; this is
  \<open>startCamera_request\<close>, which makes the call when \<open>navigator.mediaDevices\<close> is
  defined and makes none when it is not.  The rest runs when the promise settles, on the
  state of that moment, or at once when the evaluation has thrown.  The body of the
  \<open>try\<close> block either throws (\<open>Inl\<close>) or completes (\<open>Inr\<close>); the \<open>catch\<close> block
  turns a thrown value into a state.
\<close>

definition call_made :: "acquisition \<Rightarrow> bool" where
  "call_made outcome = (case outcome of Unavailable message \<Rightarrow> False | _ \<Rightarrow> True)"

definition startCamera_request :: "bool \<Rightarrow> app_state \<Rightarrow> app_state" where
  "startCamera_request mediaDevices_defined s =
     (if mediaDevices_defined then s\<lparr> requests := requests s @ [camera_constraints] \<rparr> else s)"

definition startCamera_try :: "acquisition \<Rightarrow> app_state \<Rightarrow> thrown + app_state" where
  "startCamera_try outcome s =
     (case outcome of
        Unavailable message \<Rightarrow> Inl (ErrorObject message)
      | Rejected err \<Rightarrow> Inl err
      | Granted stream \<Rightarrow>
          (case videoRef s of
             Some v \<Rightarrow>
               Inr (s\<lparr> videoRef := Some (v\<lparr> srcObject := Some stream \<rparr>),
                       streamRef := Some stream,
                       isStreaming := True,
                       error := None \<rparr>)
           | None \<Rightarrow> Inr s))"

definition startCamera_catch :: "thrown \<Rightarrow> app_state \<Rightarrow> app_state" where
  "startCamera_catch err s =
     (let errorMessage =
            (case err of
               ErrorObject message \<Rightarrow> message
             | OtherValue \<Rightarrow> ''Camera access denied. Please enable camera permissions.'')
      in s\<lparr> error := Some errorMessage,
            console := console s @ [ConsoleError ''Error accessing camera:'' err] \<rparr>)"

definition startCamera_resume :: "acquisition \<Rightarrow> app_state \<Rightarrow> thrown + app_state" where
  "startCamera_resume outcome s =
     (case startCamera_try outcome s of
        Inl err \<Rightarrow> Inr (startCamera_catch err s)
      | Inr s' \<Rightarrow> Inr s')"

text \<open>The whole call when nothing else happens while the promise is pending.\<close>

definition startCamera :: "acquisition \<Rightarrow> app_state \<Rightarrow> thrown + app_state" where
  "startCamera outcome s =
     startCamera_resume outcome (startCamera_request (call_made outcome) s)"

text \<open>Lines 60-63: \<open>track.stop(); track.enabled = false\<close> for every track of the stream.\<close>

definition stop_track :: "nat \<Rightarrow> (nat \<Rightarrow> track) \<Rightarrow> (nat \<Rightarrow> track)" where
  "stop_track a st = st(a := \<lparr> live = False, enabled = False \<rparr>)"

fun stop_tracks :: "nat list \<Rightarrow> (nat \<Rightarrow> track) \<Rightarrow> (nat \<Rightarrow> track)" where
  "stop_tracks [] st = st"
| "stop_tracks (a # as) st = stop_tracks as (stop_track a st)"

text \<open>Lines 58-70.\<close>

definition stopCamera :: "app_state \<Rightarrow> app_state" where
  "stopCamera s =
     (case streamRef s of
        None \<Rightarrow> s
      | Some stream \<Rightarrow>
          s\<lparr> trackStore := stop_tracks (getTracks stream) (trackStore s),
             videoRef := (case videoRef s of
                            Some v \<Rightarrow> Some (v\<lparr> srcObject := None \<rparr>)
                          | None \<Rightarrow> None),
             streamRef := None,
             isStreaming := False \<rparr>)"

text \<open>
  Lines 72-76: when the view is removed, the \<open>video\<close> element is detached from
  \<open>videoRef\<close> and the cleanup of the second effect calls \<open>stopCamera\<close>.
\<close>

definition unmount :: "app_state \<Rightarrow> app_state" where
  "unmount s = stopCamera (s\<lparr> videoRef := None \<rparr>)"

section \<open>The conversion log\<close>

text \<open>
  Lines 78-86.  \<open>now\<close> is the value of \<open>Date.now()\<close> and \<open>time_string\<close> the value of
  \<open>new Date().toLocaleTimeString()\<close> at the call.  The handler has no parameter: the
  text is a constant.
\<close>

definition newConversion :: "int \<Rightarrow> string \<Rightarrow> conversion" where
  "newConversion now time_string =
     \<lparr> id_c = now, text_c = ''Hello, how are you?'', timestamp_c = time_string \<rparr>"

definition handleConvertToText :: "int \<Rightarrow> string \<Rightarrow> app_state \<Rightarrow> app_state" where
  "handleConvertToText now time_string s =
     s\<lparr> conversions := newConversion now time_string # conversions s \<rparr>"

text \<open>A run of calls, the first reading of the clock first.\<close>

fun addRecords :: "(int \<times> string) list \<Rightarrow> app_state \<Rightarrow> app_state" where
  "addRecords [] s = s"
| "addRecords ((now, time_string) # rest) s =
     addRecords rest (handleConvertToText now time_string s)"

text \<open>Lines 88-91.\<close>

definition handleConvertToSpeech :: "app_state \<Rightarrow> app_state" where
  "handleConvertToSpeech s = s\<lparr> console := console s @ [ConsoleLog ''Converting to speech...''] \<rparr>"

text \<open>Lines 93-95.\<close>

definition clearConversions :: "app_state \<Rightarrow> app_state" where
  "clearConversions s = s\<lparr> conversions := [] \<rparr>"

section \<open>Copying a record\<close>

text \<open>
  Lines 97-105.  \<open>now\<close> is the time in milliseconds at which the function resumes
  after the \<open>await\<close>.  \<open>setTimeout(..., 2000)\<close> adds a callback due at \<open>now + 2000\<close>; every
  such callback is \<open>setCopiedId(null)\<close>, so a pending callback is its due time.
\<close>

definition copy_window :: nat where
  "copy_window = 2000"

definition copyToClipboard ::
  "nat \<Rightarrow> clipboard_write \<Rightarrow> string \<Rightarrow> int \<Rightarrow> app_state \<Rightarrow> app_state" where
  "copyToClipboard now outcome text_arg id_arg s =
     (case outcome of
        Written \<Rightarrow>
          s\<lparr> clipboard := Some text_arg,
             copiedId := Some id_arg,
             timers := timers s @ [now + copy_window] \<rparr>
      | WriteRejected err \<Rightarrow>
          s\<lparr> console := console s @ [ConsoleError ''Failed to copy text:'' err] \<rparr>)"



text \<open>Line 227: the check icon is shown for a record when \<open>copiedId === conversion.id\<close>.\<close>

definition shown_copied :: "app_state \<Rightarrow> conversion \<Rightarrow> bool" where
  "shown_copied s r = (copiedId s = Some (id_c r))"

section \<open>Concrete inputs\<close>

text \<open>A stream with two tracks, as \<open>getUserMedia\<close> may deliver it.\<close>

definition example_stream :: media_stream where
  "example_stream = \<lparr> stream_id = 1, getTracks = [0, 1] \<rparr>"

text \<open>A page served over plain HTTP from a host that is not \<open>localhost\<close>.\<close>

definition insecure_env :: environment where
  "insecure_env = \<lparr> prefersDark = False, protocol = ''http:'', hostname = ''example.org'' \<rparr>"

text \<open>The state after a successful \<open>startCamera\<close> on the fresh component.\<close>

definition streaming_state :: app_state where
  "streaming_state = projr (startCamera (Granted example_stream) initial_state)"

text \<open>
  The component mounted on that page: the mount effect has stored its message.
\<close>

definition insecure_mounted :: app_state where
  "insecure_mounted = mount_effect insecure_env initial_state"

text \<open>
  The view removed while the promise of \<open>getUserMedia\<close> is still pending:
  \<open>startCamera\<close> has made its call, then the cleanup has run.
\<close>

definition pending_unmounted :: app_state where
  "pending_unmounted = unmount (startCamera_request True initial_state)"

text \<open>
  A log with one record, made at the clock reading \<open>1700000000000\<close>.
\<close>

definition same_instant_log :: app_state where
  "same_instant_log = handleConvertToText 1700000000000 ''10:15:30'' initial_state"




section \<open>Starting the camera\<close>

lemma startCamera_resume_Granted_Some:
  "videoRef s = Some v \<Longrightarrow>
   startCamera_resume (Granted stream) s =
     Inr (s\<lparr> videoRef := Some (v\<lparr> srcObject := Some stream \<rparr>), streamRef := Some stream,
            isStreaming := True, error := None \<rparr>)"
  by (simp add: startCamera_resume_def startCamera_try_def)

lemma startCamera_resume_Granted_None:
  "videoRef s = None \<Longrightarrow> startCamera_resume (Granted stream) s = Inr s"
  by (simp add: startCamera_resume_def startCamera_try_def)

lemma startCamera_resume_Rejected:
  "startCamera_resume (Rejected err) s = Inr (startCamera_catch err s)"
  by (simp add: startCamera_resume_def startCamera_try_def)

lemma startCamera_resume_returns: "\<not> isl (startCamera_resume outcome s)"
  by (simp add: startCamera_resume_def split: sum.splits)

lemma startCamera_resume_Unavailable:
  "startCamera_resume (Unavailable message) s = Inr (startCamera_catch (ErrorObject message) s)"
  by (simp add: startCamera_resume_def startCamera_try_def)

lemma requests_startCamera_resume:
  "requests (projr (startCamera_resume outcome s)) = requests s"
  by (cases outcome)
     (simp_all add: startCamera_resume_def startCamera_try_def startCamera_catch_def
        split: option.splits)

lemma videoRef_startCamera_request: "videoRef (startCamera_request b s) = videoRef s"
  by (simp add: startCamera_request_def)

lemma insecure_mounted_fields:
  "videoRef insecure_mounted = Some \<lparr> srcObject = None \<rparr>"
  "error insecure_mounted = Some ''Camera access requires HTTPS or localhost connection.''"
  "\<not> isStreaming insecure_mounted"
  by (simp_all add: insecure_mounted_def mount_effect_def insecure_env_def initial_state_def)

lemma pending_unmounted_fields:
  "videoRef pending_unmounted = None"
  by (simp add: pending_unmounted_def unmount_def stopCamera_def startCamera_request_def
        initial_state_def)

subsection \<open>Acquisition succeeds\<close>

text \<open>
  Claim C1 says that every call of \<open>startCamera\<close> whose acquisition succeeds stores
  the stream, sets \<open>isStreaming\<close> and clears the error.  The assignments are guarded
  by \<open>if (videoRef.current)\<close>.  When the view has been removed while the promise was
  pending, the guard fails: the call returns, nothing is stored and \<open>isStreaming\<close>
  stays false.
\<close>

theorem startCamera_granted_unmounted_counterexample:
  "requests pending_unmounted = [camera_constraints]
   \<and> \<not> isl (startCamera_resume (Granted example_stream) pending_unmounted)
   \<and> streamRef (projr (startCamera_resume (Granted example_stream) pending_unmounted)) = None
   \<and> \<not> isStreaming (projr (startCamera_resume (Granted example_stream) pending_unmounted))"
  by (simp add: startCamera_resume_def startCamera_try_def pending_unmounted_def unmount_def
        stopCamera_def startCamera_request_def initial_state_def)

text \<open>
  Claim C1, amended.  When acquisition succeeds and the video element is attached
  (\<open>videoRef.current\<close> is not null) at the moment the promise resolves, the call
  returns, the stream is stored in \<open>streamRef\<close> and shown by the video element,
  \<open>isStreaming\<close> is true and the error is cleared.  This holds for the call run in
  one piece and for its second half run on any later state.  When the video element is
  not attached, the second half leaves the state as it is.
\<close>

theorem startCamera_granted:
  "(\<forall>v. videoRef s = Some v \<longrightarrow>
      \<not> isl (startCamera (Granted stream) s)
      \<and> streamRef (projr (startCamera (Granted stream) s)) = Some stream
      \<and> videoRef (projr (startCamera (Granted stream) s)) = Some (v\<lparr> srcObject := Some stream \<rparr>)
      \<and> isStreaming (projr (startCamera (Granted stream) s))
      \<and> error (projr (startCamera (Granted stream) s)) = None)
   \<and> (\<forall>v. videoRef s = Some v \<longrightarrow>
      \<not> isl (startCamera_resume (Granted stream) s)
      \<and> streamRef (projr (startCamera_resume (Granted stream) s)) = Some stream
      \<and> videoRef (projr (startCamera_resume (Granted stream) s)) = Some (v\<lparr> srcObject := Some stream \<rparr>)
      \<and> isStreaming (projr (startCamera_resume (Granted stream) s))
      \<and> error (projr (startCamera_resume (Granted stream) s)) = None)
   \<and> (videoRef s = None \<longrightarrow> startCamera_resume (Granted stream) s = Inr s)"
proof (intro conjI allI impI)
  fix v assume v: "videoRef s = Some v"
  then have r: "videoRef (startCamera_request True s) = Some v"
    by (simp add: videoRef_startCamera_request)
  note eq = startCamera_resume_Granted_Some [OF r, of stream]
  show "\<not> isl (startCamera (Granted stream) s)"
    by (simp add: startCamera_def call_made_def eq)
  show "streamRef (projr (startCamera (Granted stream) s)) = Some stream"
    by (simp add: startCamera_def call_made_def eq)
  show "videoRef (projr (startCamera (Granted stream) s)) = Some (v\<lparr> srcObject := Some stream \<rparr>)"
    by (simp add: startCamera_def call_made_def eq)
  show "isStreaming (projr (startCamera (Granted stream) s))"
    by (simp add: startCamera_def call_made_def eq)
  show "error (projr (startCamera (Granted stream) s)) = None"
    by (simp add: startCamera_def call_made_def eq)
next
  fix v assume v: "videoRef s = Some v"
  note eq = startCamera_resume_Granted_Some [OF v, of stream]
  show "\<not> isl (startCamera_resume (Granted stream) s)" by (simp add: eq)
  show "streamRef (projr (startCamera_resume (Granted stream) s)) = Some stream"
    by (simp add: eq)
  show "videoRef (projr (startCamera_resume (Granted stream) s)) = Some (v\<lparr> srcObject := Some stream \<rparr>)"
    by (simp add: eq)
  show "isStreaming (projr (startCamera_resume (Granted stream) s))" by (simp add: eq)
  show "error (projr (startCamera_resume (Granted stream) s)) = None" by (simp add: eq)
next
  assume "videoRef s = None"
  then show "startCamera_resume (Granted stream) s = Inr s"
    by (rule startCamera_resume_Granted_None)
qed

text \<open>
  The theorem on the page with a stored error message, where the message is cleared,
  and on the removed view, where nothing changes.
\<close>

theorem startCamera_granted_witness:
  "videoRef insecure_mounted = Some \<lparr> srcObject = None \<rparr>
   \<and> error insecure_mounted \<noteq> None
   \<and> \<not> isStreaming insecure_mounted
   \<and> streamRef (projr (startCamera (Granted example_stream) insecure_mounted)) = Some example_stream
   \<and> videoRef (projr (startCamera (Granted example_stream) insecure_mounted))
       = Some \<lparr> srcObject = Some example_stream \<rparr>
   \<and> isStreaming (projr (startCamera (Granted example_stream) insecure_mounted))
   \<and> error (projr (startCamera (Granted example_stream) insecure_mounted)) = None
   \<and> videoRef pending_unmounted = None
   \<and> startCamera_resume (Granted example_stream) pending_unmounted = Inr pending_unmounted"
  using startCamera_granted [of insecure_mounted example_stream]
        startCamera_granted [of pending_unmounted example_stream]
  by (simp add: insecure_mounted_fields pending_unmounted_fields)

subsection \<open>The secure-context check\<close>

text \<open>
  Claim C2 says that \<open>startCamera\<close> in a context that is not secure surfaces an
  error without attempting acquisition.  The check of the protocol and the host is in
  the mount effect only; \<open>startCamera\<close> reads neither.  On a page served over plain
  HTTP by a platform that defines \<open>navigator.mediaDevices\<close>, the call of
  \<open>getUserMedia\<close> is made.
\<close>

theorem startCamera_insecure_counterexample:
  "\<not> secure_context insecure_env
   \<and> \<not> isl (startCamera (Rejected (ErrorObject ''Permission denied'')) insecure_mounted)
   \<and> requests insecure_mounted = []
   \<and> requests (projr (startCamera (Rejected (ErrorObject ''Permission denied'')) insecure_mounted))
       = [camera_constraints]"
  by (simp add: secure_context_def insecure_env_def startCamera_def call_made_def
        startCamera_resume_def startCamera_try_def startCamera_catch_def
        startCamera_request_def insecure_mounted_def mount_effect_def initial_state_def)

text \<open>
  Claim C2, amended.  In a context that is not secure the mount effect stores the
  message about HTTPS, and makes no call of \<open>getUserMedia\<close>.  \<open>startCamera\<close>
  itself does not look at the context, and every call of it returns.  When
  \<open>navigator.mediaDevices\<close> is undefined, no call of \<open>getUserMedia\<close> is made, the
  message of the \<open>TypeError\<close> is stored as the error, and the streaming flag and the
  stored stream keep their values.  When it is defined, exactly one call of
  \<open>getUserMedia\<close> is made, with the constraints of the source.
\<close>

theorem insecure_context_error_and_request:
  "(\<not> secure_context env \<longrightarrow>
      error (mount_effect env s) = Some ''Camera access requires HTTPS or localhost connection.'')
   \<and> requests (mount_effect env s) = requests s
   \<and> \<not> isl (startCamera outcome s)
   \<and> (\<forall>message. outcome = Unavailable message \<longrightarrow>
         requests (projr (startCamera outcome s)) = requests s
         \<and> error (projr (startCamera outcome s)) = Some message
         \<and> isStreaming (projr (startCamera outcome s)) = isStreaming s
         \<and> streamRef (projr (startCamera outcome s)) = streamRef s)
   \<and> ((\<forall>message. outcome \<noteq> Unavailable message) \<longrightarrow>
         requests (projr (startCamera outcome s)) = requests s @ [camera_constraints])"
proof (intro conjI impI allI)
  assume "\<not> secure_context env"
  then show "error (mount_effect env s) = Some ''Camera access requires HTTPS or localhost connection.''"
    by (simp add: secure_context_def mount_effect_def Let_def)
next
  show "requests (mount_effect env s) = requests s"
    by (simp add: mount_effect_def Let_def)
next
  show "\<not> isl (startCamera outcome s)"
    by (simp add: startCamera_def startCamera_resume_returns)
next
  fix message assume u: "outcome = Unavailable message"
  have eq: "startCamera outcome s = Inr (startCamera_catch (ErrorObject message) s)"
    by (simp add: u startCamera_def call_made_def startCamera_request_def
          startCamera_resume_Unavailable)
  show "requests (projr (startCamera outcome s)) = requests s"
    by (simp add: eq startCamera_catch_def)
  show "error (projr (startCamera outcome s)) = Some message"
    by (simp add: eq startCamera_catch_def)
  show "isStreaming (projr (startCamera outcome s)) = isStreaming s"
    by (simp add: eq startCamera_catch_def)
  show "streamRef (projr (startCamera outcome s)) = streamRef s"
    by (simp add: eq startCamera_catch_def)
next
  assume "\<forall>message. outcome \<noteq> Unavailable message"
  then have "call_made outcome"
    by (cases outcome) (simp_all add: call_made_def)
  then show "requests (projr (startCamera outcome s)) = requests s @ [camera_constraints]"
    by (simp add: startCamera_def requests_startCamera_resume startCamera_request_def)
qed

text \<open>
  The theorem on the page served over plain HTTP: the mount effect stores its message;
  a call where \<open>navigator.mediaDevices\<close> is undefined makes no call of
  \<open>getUserMedia\<close> and replaces the message by that of the \<open>TypeError\<close>; a call where
  it is defined makes one.
\<close>

theorem insecure_context_error_and_request_witness:
  "\<not> secure_context insecure_env
   \<and> error (mount_effect insecure_env initial_state)
       = Some ''Camera access requires HTTPS or localhost connection.''
   \<and> requests (projr (startCamera (Unavailable ''navigator.mediaDevices is undefined'')
         (mount_effect insecure_env initial_state))) = []
   \<and> error (projr (startCamera (Unavailable ''navigator.mediaDevices is undefined'')
         (mount_effect insecure_env initial_state)))
       = Some ''navigator.mediaDevices is undefined''
   \<and> requests (projr (startCamera (Granted example_stream) (mount_effect insecure_env initial_state)))
       = [camera_constraints]"
  using insecure_context_error_and_request
          [of insecure_env initial_state "Granted example_stream"]
        insecure_context_error_and_request
          [of insecure_env "mount_effect insecure_env initial_state" "Granted example_stream"]
        insecure_context_error_and_request
          [of insecure_env "mount_effect insecure_env initial_state"
              "Unavailable ''navigator.mediaDevices is undefined''"]
  by (simp add: secure_context_def insecure_env_def initial_state_def mount_effect_def)

subsection \<open>Acquisition fails\<close>

text \<open>
  Claim C5 says that after a failed acquisition the stored error message is not
  empty.  The \<open>catch\<close> block stores \<open>err.message\<close> of an \<open>Error\<close> as it is, so an
  \<open>Error\<close> with the empty message leaves the empty string (for which the view shows
  no banner).
\<close>

theorem startCamera_rejected_empty_message_counterexample:
  "\<not> isl (startCamera (Rejected (ErrorObject '''')) initial_state)
   \<and> error (projr (startCamera (Rejected (ErrorObject '''')) initial_state)) = Some ''''"
  by (simp add: startCamera_def call_made_def startCamera_resume_def startCamera_try_def startCamera_catch_def)

text \<open>
  Claim C5, amended.  When acquisition fails, because the promise is rejected or
  because \<open>navigator.mediaDevices\<close> is undefined and a \<open>TypeError\<close> is thrown, the
  call returns normally: nothing is thrown past \<open>startCamera\<close>.  \<open>isStreaming\<close> and the stored stream keep their
  values, so \<open>isStreaming\<close> stays false when it was false.  The stored error is the
  message of the \<open>Error\<close> that was thrown, or the fixed text about permissions when
  the thrown value is not an \<open>Error\<close>; it is not empty unless the thrown \<open>Error\<close>
  has the empty message.
\<close>

theorem startCamera_rejected:
  "\<not> isl (startCamera (Rejected err) s)
   \<and> isStreaming (projr (startCamera (Rejected err) s)) = isStreaming s
   \<and> streamRef (projr (startCamera (Rejected err) s)) = streamRef s
   \<and> (\<not> isStreaming s \<longrightarrow> \<not> isStreaming (projr (startCamera (Rejected err) s)))
   \<and> (err = OtherValue \<longrightarrow>
        error (projr (startCamera (Rejected err) s))
          = Some ''Camera access denied. Please enable camera permissions.'')
   \<and> (\<forall>message. err = ErrorObject message \<longrightarrow>
        error (projr (startCamera (Rejected err) s)) = Some message)
   \<and> (err \<noteq> ErrorObject '''' \<longrightarrow>
        error (projr (startCamera (Rejected err) s)) \<noteq> None
        \<and> error (projr (startCamera (Rejected err) s)) \<noteq> Some '''')
   \<and> \<not> isl (startCamera (Unavailable reason) s)
   \<and> isStreaming (projr (startCamera (Unavailable reason) s)) = isStreaming s
   \<and> streamRef (projr (startCamera (Unavailable reason) s)) = streamRef s
   \<and> error (projr (startCamera (Unavailable reason) s)) = Some reason"
  by (cases err)
     (simp_all add: startCamera_def call_made_def startCamera_resume_Rejected
        startCamera_resume_Unavailable startCamera_catch_def startCamera_request_def)

theorem startCamera_rejected_witness:
  "\<not> isStreaming initial_state
   \<and> \<not> isStreaming (projr (startCamera (Rejected OtherValue) initial_state))
   \<and> error (projr (startCamera (Rejected OtherValue) initial_state))
       = Some ''Camera access denied. Please enable camera permissions.''
   \<and> error (projr (startCamera (Rejected (ErrorObject ''Permission denied'')) initial_state))
       = Some ''Permission denied''
   \<and> error (projr (startCamera (Rejected (ErrorObject ''Permission denied'')) initial_state))
       \<noteq> Some ''''
   \<and> error (projr (startCamera (Unavailable ''navigator.mediaDevices is undefined'') initial_state))
       = Some ''navigator.mediaDevices is undefined''
   \<and> \<not> isStreaming (projr (startCamera (Unavailable ''navigator.mediaDevices is undefined'')
         initial_state))"
  using startCamera_rejected [where err = OtherValue and s = initial_state
          and reason = "''navigator.mediaDevices is undefined''"]
        startCamera_rejected [where err = "ErrorObject ''Permission denied''" and s = initial_state
          and reason = "''navigator.mediaDevices is undefined''"]
  by (simp add: initial_state_def)

section \<open>Stopping the camera\<close>

lemma stop_tracks_other: "a \<notin> set as \<Longrightarrow> stop_tracks as st a = st a"
  by (induction as arbitrary: st) (auto simp: stop_track_def)

lemma stop_tracks_member:
  "a \<in> set as \<Longrightarrow> stop_tracks as st a = \<lparr> live = False, enabled = False \<rparr>"
proof (induction as arbitrary: st)
  case Nil
  then show ?case by simp
next
  case (Cons b bs)
  show ?case
  proof (cases "a \<in> set bs")
    case True
    then show ?thesis using Cons.IH by simp
  next
    case False
    with Cons.prems have "a = b" by simp
    with False show ?thesis by (simp add: stop_tracks_other stop_track_def)
  qed
qed

lemma stopCamera_inactive: "streamRef s = None \<Longrightarrow> stopCamera s = s"
  by (simp add: stopCamera_def)

lemma streamRef_stopCamera: "streamRef (stopCamera s) = None"
  by (simp add: stopCamera_def split: option.splits)

lemma isStreaming_stopCamera_active:
  "streamRef s = Some stream \<Longrightarrow> \<not> isStreaming (stopCamera s)"
  by (simp add: stopCamera_def)

lemma trackStore_stopCamera_active:
  "streamRef s = Some stream \<Longrightarrow>
   trackStore (stopCamera s) = stop_tracks (getTracks stream) (trackStore s)"
  by (simp add: stopCamera_def)

lemma videoRef_stopCamera_active:
  "streamRef s = Some stream \<Longrightarrow> videoRef s = Some v \<Longrightarrow>
   videoRef (stopCamera s) = Some (v\<lparr> srcObject := None \<rparr>)"
  by (simp add: stopCamera_def)

text \<open>
  Claim C7.  \<open>stopCamera\<close> is idempotent.  With no stored stream it returns the
  state as it is; a second call right after a first changes nothing more; and on a
  state with a stored stream the first call leaves \<open>isStreaming\<close> false, the stored
  handle cleared, every track of the stream stopped and disabled, and the video element
  detached from the stream.
\<close>

theorem stopCamera_idempotent:
  "(streamRef s = None \<longrightarrow> stopCamera s = s)
   \<and> stopCamera (stopCamera s) = stopCamera s
   \<and> (\<forall>stream. streamRef s = Some stream \<longrightarrow>
        \<not> isStreaming (stopCamera s)
        \<and> streamRef (stopCamera s) = None
        \<and> (\<forall>a \<in> set (getTracks stream).
              \<not> live (trackStore (stopCamera s) a) \<and> \<not> enabled (trackStore (stopCamera s) a))
        \<and> (\<forall>v. videoRef s = Some v \<longrightarrow> videoRef (stopCamera s) = Some (v\<lparr> srcObject := None \<rparr>)))"
proof (intro conjI allI impI ballI)
  assume "streamRef s = None"
  then show "stopCamera s = s" by (rule stopCamera_inactive)
next
  show "stopCamera (stopCamera s) = stopCamera s"
    by (rule stopCamera_inactive) (rule streamRef_stopCamera)
next
  fix stream assume "streamRef s = Some stream"
  then show "\<not> isStreaming (stopCamera s)" by (rule isStreaming_stopCamera_active)
next
  show "streamRef (stopCamera s) = None" by (rule streamRef_stopCamera)
next
  fix stream a assume "streamRef s = Some stream" "a \<in> set (getTracks stream)"
  then show "\<not> live (trackStore (stopCamera s) a)"
    by (simp add: trackStore_stopCamera_active stop_tracks_member)
next
  fix stream a assume "streamRef s = Some stream" "a \<in> set (getTracks stream)"
  then show "\<not> enabled (trackStore (stopCamera s) a)"
    by (simp add: trackStore_stopCamera_active stop_tracks_member)
next
  fix stream v assume "streamRef s = Some stream" "videoRef s = Some v"
  then show "videoRef (stopCamera s) = Some (v\<lparr> srcObject := None \<rparr>)"
    by (rule videoRef_stopCamera_active)
qed

text \<open>
  The theorem at two inputs: the state left by a successful start, where both tracks
  of the stream end up stopped, and the fresh state, where nothing changes.
\<close>

lemma streaming_state_fields:
  "streamRef streaming_state = Some example_stream"
  "isStreaming streaming_state"
  "videoRef streaming_state = Some \<lparr> srcObject = Some example_stream \<rparr>"
  by (simp_all add: streaming_state_def startCamera_def call_made_def startCamera_resume_def
        startCamera_try_def startCamera_request_def initial_state_def)

theorem stopCamera_idempotent_witness:
  "streamRef streaming_state = Some example_stream
   \<and> isStreaming streaming_state
   \<and> \<not> isStreaming (stopCamera streaming_state)
   \<and> \<not> live (trackStore (stopCamera streaming_state) 0)
   \<and> \<not> live (trackStore (stopCamera streaming_state) 1)
   \<and> videoRef (stopCamera streaming_state) = Some \<lparr> srcObject = None \<rparr>
   \<and> stopCamera (stopCamera streaming_state) = stopCamera streaming_state
   \<and> streamRef initial_state = None
   \<and> stopCamera initial_state = initial_state"
  using stopCamera_idempotent [of streaming_state] stopCamera_idempotent [of initial_state]
  by (simp add: streaming_state_fields example_stream_def initial_state_def)

section \<open>Adding records to the conversion log\<close>

lemma conversions_addRecords:
  "conversions (addRecords rs s) = rev (map (\<lambda>(now, time_string). newConversion now time_string) rs) @ conversions s"
  by (induction rs arbitrary: s) (auto simp: handleConvertToText_def)

lemma id_c_newConversion: "id_c (newConversion now time_string) = now"
  by (simp add: newConversion_def)

lemma ids_addRecords:
  "map id_c (conversions (addRecords rs s)) = rev (map fst rs) @ map id_c (conversions s)"
  by (simp add: conversions_addRecords rev_map o_def case_prod_beta id_c_newConversion)

text \<open>
  Claim C3 says that after any \<open>N\<close> calls the ids in the log are pairwise
  distinct.  An id is the value of \<open>Date.now()\<close>, in milliseconds: two calls within
  the same millisecond give two records with one id.
\<close>

theorem addRecords_same_instant_counterexample:
  "length (conversions (addRecords [(5, ''10:15:30''), (5, ''10:15:30'')] initial_state)) = 2
   \<and> \<not> distinct (map id_c (conversions (addRecords [(5, ''10:15:30''), (5, ''10:15:30'')] initial_state)))"
  by (simp add: handleConvertToText_def newConversion_def initial_state_def)

text \<open>
  Claim C3, amended.  After \<open>N\<close> calls of \<open>handleConvertToText\<close> on an empty log,
  the log has \<open>N\<close> records, in the reverse of the order of the calls; their ids are
  the clock readings of the calls, latest first.  The ids are pairwise distinct exactly
  when the clock readings are, and they descend along the log when the clock never went
  back.
\<close>

theorem addRecords_log:
  assumes "conversions s = []"
  shows "length (conversions (addRecords rs s)) = length rs
   \<and> conversions (addRecords rs s) = rev (map (\<lambda>(now, time_string). newConversion now time_string) rs)
   \<and> map id_c (conversions (addRecords rs s)) = rev (map fst rs)
   \<and> (distinct (map id_c (conversions (addRecords rs s))) \<longleftrightarrow> distinct (map fst rs))
   \<and> (sorted (map fst rs) \<longrightarrow> sorted (rev (map id_c (conversions (addRecords rs s)))))"
proof -
  have log: "conversions (addRecords rs s) = rev (map (\<lambda>(now, time_string). newConversion now time_string) rs)"
    using assms by (simp add: conversions_addRecords)
  have ids: "map id_c (conversions (addRecords rs s)) = rev (map fst rs)"
    using assms by (simp add: ids_addRecords)
  have len: "length (conversions (addRecords rs s)) = length rs"
    by (simp add: log)
  have dist: "distinct (map id_c (conversions (addRecords rs s))) \<longleftrightarrow> distinct (map fst rs)"
    by (simp only: ids distinct_rev)
  have srt: "sorted (map fst rs) \<longrightarrow> sorted (rev (map id_c (conversions (addRecords rs s))))"
    by (simp only: ids rev_rev_ident) simp
  from len log ids dist srt show ?thesis by blast
qed

theorem addRecords_log_witness:
  "conversions initial_state = []
   \<and> length (conversions (addRecords [(5, ''10:15:30''), (9, ''10:15:31''), (12, ''10:15:31'')] initial_state)) = 3
   \<and> map id_c (conversions (addRecords [(5, ''10:15:30''), (9, ''10:15:31''), (12, ''10:15:31'')] initial_state))
       = [12, 9, 5]
   \<and> distinct (map id_c (conversions (addRecords [(5, ''10:15:30''), (9, ''10:15:31''), (12, ''10:15:31'')] initial_state)))"
  using addRecords_log [of initial_state "[(5, ''10:15:30''), (9, ''10:15:31''), (12, ''10:15:31'')]"]
  by (simp add: initial_state_def handleConvertToText_def newConversion_def)

text \<open>
  Claim C6 says that the new record has a fresh id.  Its id is the clock reading, and
  a record made at the same reading is already in the log.
\<close>

theorem handleConvertToText_same_instant_counterexample:
  "id_c (hd (conversions (handleConvertToText 1700000000000 ''10:15:30'' same_instant_log)))
     \<in> set (map id_c (conversions same_instant_log))"
  by (simp add: same_instant_log_def handleConvertToText_def newConversion_def initial_state_def)

text \<open>
  Claim C6, amended.  \<open>handleConvertToText\<close> takes no text: it builds a record with
  the clock reading as id, the fixed text \<open>Hello, how are you?\<close> and the current time
  string, and puts it at position 0.  The records stored before follow it, unchanged and
  in their order, and no other part of the state changes.  The id is fresh when the
  clock reading is not the id of a stored record, as it is when the reading is greater
  than every stored id; distinct ids then stay distinct.
\<close>

theorem handleConvertToText_head:
  "conversions (handleConvertToText now time_string s)
     = \<lparr> id_c = now, text_c = ''Hello, how are you?'', timestamp_c = time_string \<rparr> # conversions s
   \<and> tl (conversions (handleConvertToText now time_string s)) = conversions s
   \<and> (\<forall>i < length (conversions s).
        conversions (handleConvertToText now time_string s) ! Suc i = conversions s ! i)
   \<and> handleConvertToText now time_string s
       = s\<lparr> conversions := conversions (handleConvertToText now time_string s) \<rparr>
   \<and> (now \<notin> set (map id_c (conversions s)) \<longrightarrow>
        id_c (hd (conversions (handleConvertToText now time_string s)))
          \<notin> set (map id_c (tl (conversions (handleConvertToText now time_string s))))
        \<and> (distinct (map id_c (conversions s)) \<longrightarrow>
             distinct (map id_c (conversions (handleConvertToText now time_string s)))))
   \<and> ((\<forall>r \<in> set (conversions s). id_c r < now) \<longrightarrow> now \<notin> set (map id_c (conversions s)))"
  by (auto simp: handleConvertToText_def newConversion_def)

theorem handleConvertToText_head_witness:
  "map id_c (conversions same_instant_log) = [1700000000000]
   \<and> 1700000000001 \<notin> set (map id_c (conversions same_instant_log))
   \<and> distinct (map id_c (conversions same_instant_log))
   \<and> map id_c (conversions (handleConvertToText 1700000000001 ''10:15:30'' same_instant_log))
       = [1700000000001, 1700000000000]
   \<and> distinct (map id_c (conversions (handleConvertToText 1700000000001 ''10:15:30'' same_instant_log)))
   \<and> 0 < length (conversions same_instant_log)
   \<and> conversions (handleConvertToText 1700000000001 ''10:15:30'' same_instant_log) ! Suc 0
       = conversions same_instant_log ! 0"
  using handleConvertToText_head [of 1700000000001 "''10:15:30''" same_instant_log]
  by (simp add: same_instant_log_def handleConvertToText_def newConversion_def initial_state_def)

section \<open>The copied mark\<close>




section \<open>Frame properties of the handlers without effect on the camera\<close>

text \<open>
  Claim C8.  \<open>handleConvertToSpeech\<close> leaves the conversion log, the streaming flag,
  the error message, the copied-id mark and the dark-mode flag as they were: the only
  field that differs afterwards is the console, which has one more line.
\<close>

theorem handleConvertToSpeech_frame:
  "conversions (handleConvertToSpeech s) = conversions s
   \<and> isStreaming (handleConvertToSpeech s) = isStreaming s
   \<and> error (handleConvertToSpeech s) = error s
   \<and> copiedId (handleConvertToSpeech s) = copiedId s
   \<and> isDarkMode (handleConvertToSpeech s) = isDarkMode s
   \<and> handleConvertToSpeech s = s\<lparr> console := console s @ [ConsoleLog ''Converting to speech...''] \<rparr>"
  by (simp add: handleConvertToSpeech_def)

text \<open>
  Claim C9.  \<open>clearConversions\<close> changes only the conversion log, which becomes empty:
  the streaming flag, the error message, the dark-mode flag and the copied-id mark keep
  their values.  Hence the mark of a record can outlive the record: there is a state
  with a record shown as copied whose mark is still set after the log is cleared.
\<close>

theorem clearConversions_frame:
  "(isStreaming (clearConversions s) = isStreaming s
    \<and> error (clearConversions s) = error s
    \<and> isDarkMode (clearConversions s) = isDarkMode s
    \<and> copiedId (clearConversions s) = copiedId s
    \<and> clearConversions s = s\<lparr> conversions := [] \<rparr>)
   \<and> (\<exists>s0 r. r \<in> set (conversions s0) \<and> shown_copied s0 r
          \<and> conversions (clearConversions s0) = []
          \<and> shown_copied (clearConversions s0) r)"
proof
  show "isStreaming (clearConversions s) = isStreaming s
    \<and> error (clearConversions s) = error s
    \<and> isDarkMode (clearConversions s) = isDarkMode s
    \<and> copiedId (clearConversions s) = copiedId s
    \<and> clearConversions s = s\<lparr> conversions := [] \<rparr>"
    by (simp add: clearConversions_def)
next
  let ?s0 = "copyToClipboard 0 Written ''Hello, how are you?'' 7
               (handleConvertToText 7 ''10:00:00'' initial_state)"
  let ?r = "newConversion 7 ''10:00:00''"
  have "?r \<in> set (conversions ?s0)"
    by (simp add: copyToClipboard_def handleConvertToText_def)
  moreover have "shown_copied ?s0 ?r"
    by (simp add: shown_copied_def copyToClipboard_def newConversion_def)
  moreover have "conversions (clearConversions ?s0) = []"
    by (simp add: clearConversions_def)
  moreover have "shown_copied (clearConversions ?s0) ?r"
    by (simp add: shown_copied_def clearConversions_def copyToClipboard_def newConversion_def)
  ultimately show "\<exists>s0 r. r \<in> set (conversions s0) \<and> shown_copied s0 r
          \<and> conversions (clearConversions s0) = []
          \<and> shown_copied (clearConversions s0) r"
    by blast
qed

section \<open>The dark-mode toggle\<close>

text \<open>
  When the view is rendered again between two calls, the second handler has captured
  the flag the first one stored, and the two calls give back the flag, the class of the
  root element and so the whole state.
\<close>

lemma toggleDarkMode_rerendered_twice:
  "toggleDarkMode (isDarkMode (toggleDarkMode (isDarkMode s) s))
     (toggleDarkMode (isDarkMode s) s) = s"
  by (simp add: toggleDarkMode_def)

text \<open>
  Claim C10 says that two applications of the toggle give back the dark-mode flag,
  for every state.  When the handler of one render is called twice, both calls store
  the negation of the same captured value (line 27 is not a functional update, as the
  one on line 85 is), while line 28 toggles the class of the root element twice.  From
  the fresh state the flag ends up true, not false, and the class is absent: the flag
  no longer tells whether the page is dark.
\<close>

theorem toggleDarkMode_twice_same_render:
  "isDarkMode initial_state = False
   \<and> rootDark initial_state = False
   \<and> isDarkMode (toggleDarkMode (isDarkMode initial_state)
         (toggleDarkMode (isDarkMode initial_state) initial_state)) = True
   \<and> rootDark (toggleDarkMode (isDarkMode initial_state)
         (toggleDarkMode (isDarkMode initial_state) initial_state)) = False"
  by (simp add: toggleDarkMode_def initial_state_def)

end
